theory Spec2Isabelle
  imports Main "HOL-Library.Word"
begin

section \<open>Oracle Counter: the numpad digit buffer, its overlay and its preference store\<close>

text \<open>
  A shallow embedding of \<^verbatim>\<open>src/main.py\<close>. The Python functions that decide the behaviour
  (\<^verbatim>\<open>load_config\<close>, \<^verbatim>\<open>save_config\<close>, \<^verbatim>\<open>OverlayWindow.update_text\<close>,
  \<^verbatim>\<open>OverlayWindow.update_overlay_style\<close>, the listener callback \<^verbatim>\<open>on_key_press\<close>,
  \<^verbatim>\<open>update_display\<close>, \<^verbatim>\<open>send_numbers\<close>, \<^verbatim>\<open>clear_numbers\<close>) become HOL functions of the
  same names over explicit state. Qt layout and styling of the main window are left out.
\<close>

subsection \<open>Python strings\<close>

text \<open>
  A \<^verbatim>\<open>str\<close> is a list of characters. \<^verbatim>\<open>str.isspace\<close> on the code points below 256:
  tab to carriage return, the four separators 0x1C to 0x1F, the space, NEL and the
  no-break space.
\<close>

definition py_isspace :: "char \<Rightarrow> bool" where
  "py_isspace c =
     (c \<in> set [CHR 0x09, CHR 0x0A, CHR 0x0B, CHR 0x0C, CHR 0x0D,
                CHR 0x1C, CHR 0x1D, CHR 0x1E, CHR 0x1F, CHR 0x20, CHR 0x85, CHR 0xA0])"

text \<open>\<^verbatim>\<open>sep.join(xs)\<close>\<close>

fun str_join :: "string \<Rightarrow> string list \<Rightarrow> string" where
  "str_join sep [] = []"
| "str_join sep [x] = x"
| "str_join sep (x # y # ys) = x @ sep @ str_join sep (y # ys)"

text \<open>
  \<^verbatim>\<open>s.split()\<close> with no separator: the maximal runs of non-whitespace characters.
  \<open>split_from word cs\<close> scans \<open>cs\<close> with the run read so far in \<open>word\<close>.
\<close>

fun split_from :: "string \<Rightarrow> string \<Rightarrow> string list" where
  "split_from word [] = (if word = [] then [] else [word])"
| "split_from word (c # cs) =
     (if py_isspace c
      then (if word = [] then split_from [] cs else word # split_from [] cs)
      else split_from (word @ [c]) cs)"

definition str_split :: "string \<Rightarrow> string list" where
  "str_split s = split_from [] s"

text \<open>\<^verbatim>\<open>s.strip()\<close> and \<^verbatim>\<open>s.startswith(p)\<close>\<close>

definition str_strip :: "string \<Rightarrow> string" where
  "str_strip s = rev (dropWhile py_isspace (rev (dropWhile py_isspace s)))"

definition startswith :: "string \<Rightarrow> string \<Rightarrow> bool" where
  "startswith s p = (take (length p) s = p)"

subsection \<open>The preference store\<close>

text \<open>
  What \<^verbatim>\<open>json.load\<close> returns: \<^verbatim>\<open>None\<close>, a \<^verbatim>\<open>bool\<close>, an \<^verbatim>\<open>int\<close>, a \<^verbatim>\<open>float\<close> (its 64 bits),
  a \<^verbatim>\<open>str\<close>, a \<^verbatim>\<open>list\<close>, or a \<^verbatim>\<open>dict\<close> with string keys. A dictionary keeps its
  entries in insertion order, so it is a list of pairs.
\<close>

datatype json =
    JNull
  | JBool bool
  | JInt int
  | JFloat "64 word"
  | JString string
  | JArray "json list"
  | JObject "(string \<times> json) list"

datatype py_exception = OSError | JSONDecodeError | TypeError | OverflowError

text \<open>\<^verbatim>\<open>d[k] = v\<close> on a dictionary: an existing key keeps its place, a new one goes last.\<close>

fun dict_setitem :: "(string \<times> json) list \<Rightarrow> string \<Rightarrow> json \<Rightarrow> (string \<times> json) list" where
  "dict_setitem [] k v = [(k, v)]"
| "dict_setitem ((k', v') # kvs) k v =
     (if k' = k then (k, v) # kvs else (k', v') # dict_setitem kvs k v)"

text \<open>\<^verbatim>\<open>p in s\<close> for two strings: \<open>p\<close> occurs in \<open>s\<close> as a contiguous piece.\<close>

fun is_substring :: "string \<Rightarrow> string \<Rightarrow> bool" where
  "is_substring p [] = (p = [])"
| "is_substring p (c # cs) = (startswith (c # cs) p \<or> is_substring p cs)"

text \<open>
  \<^verbatim>\<open>key in config\<close> with a string on the left: key lookup in a dictionary, membership
  by equality in a list, substring search in a string, and \<^verbatim>\<open>TypeError\<close> for \<^verbatim>\<open>None\<close>,
  booleans and numbers, which are not containers.
\<close>

definition py_in :: "string \<Rightarrow> json \<Rightarrow> py_exception + bool" where
  "py_in k c =
     (case c of
        JObject kvs \<Rightarrow> Inr (k \<in> set (map fst kvs))
      | JArray xs \<Rightarrow> Inr (JString k \<in> set xs)
      | JString s \<Rightarrow> Inr (is_substring k s)
      | _ \<Rightarrow> Inl TypeError)"

text \<open>
  \<^verbatim>\<open>config[key] = value\<close> with a string key: only a dictionary accepts it; a list wants
  an integer index and the other values support no item assignment.
\<close>

definition py_setitem :: "json \<Rightarrow> string \<Rightarrow> json \<Rightarrow> py_exception + json" where
  "py_setitem c k v =
     (case c of
        JObject kvs \<Rightarrow> Inr (JObject (dict_setitem kvs k v))
      | _ \<Rightarrow> Inl TypeError)"

text \<open>\<^verbatim>\<open>DEFAULT_CONFIG\<close>, as its items in order.\<close>

definition DEFAULT_CONFIG :: "(string \<times> json) list" where
  "DEFAULT_CONFIG =
     [(''overlay_color'', JString ''#ffff00''),
      (''overlay_x'', JNull),
      (''overlay_y'', JNull),
      (''overlay_locked'', JBool False)]"

text \<open>
  The loop of \<^verbatim>\<open>load_config\<close> over \<^verbatim>\<open>DEFAULT_CONFIG.items()\<close>: a key that is not in
  \<open>config\<close> is assigned its default. An exception leaves the loop.
\<close>

fun ensure_keys :: "(string \<times> json) list \<Rightarrow> json \<Rightarrow> py_exception + json" where
  "ensure_keys [] config = Inr config"
| "ensure_keys ((k, default_value) # items) config =
     (case py_in k config of
        Inl e \<Rightarrow> Inl e
      | Inr True \<Rightarrow> ensure_keys items config
      | Inr False \<Rightarrow>
          (case py_setitem config k default_value of
             Inl e \<Rightarrow> Inl e
           | Inr config' \<Rightarrow> ensure_keys items config'))"

text \<open>
  The file \<^verbatim>\<open>config.json\<close> as the program meets it: whether \<^verbatim>\<open>os.path.exists\<close> finds it,
  whether \<^verbatim>\<open>open\<close> for reading succeeds, what \<^verbatim>\<open>json.load\<close> makes of its content
  (\<open>None\<close> when it raises), and how an attempt to write it ends. The JSON text itself and
  the library's parser and printer are not modelled: a file written by \<^verbatim>\<open>json.dump\<close>
  holds the value that was dumped.
\<close>

datatype write_result = Written | OpenFails | DumpFails

record config_file =
  file_exists :: bool
  readable :: bool
  json_content :: "json option"
  on_write :: write_result

text \<open>
  The \<^verbatim>\<open>try\<close> block of \<^verbatim>\<open>load_config\<close>: \<open>Inr (Some config)\<close> is its \<^verbatim>\<open>return config\<close>,
  \<open>Inr None\<close> is falling out of the \<^verbatim>\<open>if\<close>, \<open>Inl e\<close> an exception. The bare
  \<^verbatim>\<open>except\<close> swallows every exception, and both other ways end in
  \<^verbatim>\<open>DEFAULT_CONFIG.copy()\<close>.
\<close>

definition load_config_try :: "config_file \<Rightarrow> py_exception + json option" where
  "load_config_try f =
     (if file_exists f then
        (if \<not> readable f then Inl OSError
         else
           (case json_content f of
              None \<Rightarrow> Inl JSONDecodeError
            | Some config \<Rightarrow>
                (case ensure_keys DEFAULT_CONFIG config of
                   Inl e \<Rightarrow> Inl e
                 | Inr config' \<Rightarrow> Inr (Some config'))))
      else Inr None)"

definition load_config :: "config_file \<Rightarrow> json" where
  "load_config f =
     (case load_config_try f of
        Inr (Some config) \<Rightarrow> config
      | Inr None \<Rightarrow> JObject DEFAULT_CONFIG
      | Inl e \<Rightarrow> JObject DEFAULT_CONFIG)"

text \<open>
  \<^verbatim>\<open>save_config\<close>: the boolean it returns and the file afterwards. When \<^verbatim>\<open>open\<close> for
  writing raises the file is untouched; when the dump raises half-way the file is left
  with a piece of text that does not parse.
\<close>

definition save_config :: "config_file \<Rightarrow> json \<Rightarrow> bool \<times> config_file" where
  "save_config f config =
     (case on_write f of
        OpenFails \<Rightarrow> (False, f)
      | DumpFails \<Rightarrow> (False, f\<lparr>file_exists := True, json_content := None\<rparr>)
      | Written \<Rightarrow> (True, f\<lparr>file_exists := True, json_content := Some config\<rparr>))"

subsection \<open>The numpad mapping and key events\<close>

text \<open>\<^verbatim>\<open>NUMPAD_MAPPING\<close>: virtual key codes 96 to 105 to the digit characters.\<close>

definition NUMPAD_MAPPING :: "int \<rightharpoonup> string" where
  "NUMPAD_MAPPING =
     map_of [(96, ''0''), (97, ''1''), (98, ''2''), (99, ''3''), (100, ''4''),
             (101, ''5''), (102, ''6''), (103, ''7''), (104, ''8''), (105, ''9'')]"

text \<open>
  What pynput hands to \<^verbatim>\<open>on_press\<close>: a \<^verbatim>\<open>KeyCode\<close> (its \<^verbatim>\<open>vk\<close> attribute is an integer
  or \<^verbatim>\<open>None\<close>), a member of the enumeration \<^verbatim>\<open>Key\<close> (named here by its member name,
  \<^verbatim>\<open>Key.enter\<close> is \<open>Key ''enter''\<close>; a member has no attribute \<^verbatim>\<open>vk\<close>), or \<^verbatim>\<open>None\<close>
  for a key the platform layer could not translate.
\<close>

datatype key = KeyCode "int option" | Key string | NoKey

subsection \<open>Preferences and the overlay window\<close>

text \<open>
  The configuration dictionary as the windows use it: the four recognised keys, holding
  a colour string, two integers or \<^verbatim>\<open>None\<close>, and a boolean, as in \<^verbatim>\<open>DEFAULT_CONFIG\<close> and in
  every assignment the windows make to it. \<^verbatim>\<open>config['overlay_color']\<close> and
  \<^verbatim>\<open>config.get('overlay_locked', False)\<close> are the fields \<open>overlay_color\<close> and
  \<open>overlay_locked\<close>. It is one object shared by the main window and the overlay, so it is
  kept in the main window and passed to the overlay's methods.
\<close>

record preferences =
  overlay_color :: string
  overlay_x :: "int option"
  overlay_y :: "int option"
  overlay_locked :: bool

text \<open>The four values \<^verbatim>\<open>update_overlay_style\<close> puts into the label's style sheet.\<close>

record label_style =
  text_color :: string
  font_size :: string
  bg_color :: string
  border_style :: string

text \<open>
  The overlay window: the text and style of its label, whether it lets input through,
  and where it stands on the screen.
\<close>

record overlay_window =
  label_text :: string
  label_sheet :: label_style
  click_through :: bool
  window_pos :: "int \<times> int"

definition update_overlay_style :: "preferences \<Rightarrow> overlay_window \<Rightarrow> overlay_window" where
  "update_overlay_style cfg w =
     (let has_content =
            (str_strip (label_text w) \<noteq> [] \<and> \<not> startswith (label_text w) ''Overlay'');
          is_locked = overlay_locked cfg;
          (border, bg, color) =
            (if has_content then
               (if is_locked
                then (''none'', ''transparent'', overlay_color cfg)
                else (''2px dashed #ff4757'', ''rgba(255, 71, 87, 0.15)'', overlay_color cfg))
             else if is_locked then
               (''none'', ''transparent'', ''transparent'')
             else
               (''2px dashed #ff4757'', ''rgba(255, 71, 87, 0.15)'', ''#ff4757''));
          has_actual_numbers =
            (str_strip (label_text w) \<noteq> [] \<and> \<not> startswith (label_text w) ''Overlay'');
          size = (if has_actual_numbers then ''36px'' else ''16px'')
      in w\<lparr>label_sheet :=
             \<lparr>text_color = color, font_size = size, bg_color = bg, border_style = border\<rparr>\<rparr>)"

text \<open>The label shown while the overlay is unlocked and there are no digits.\<close>

definition position_hint :: string where
  "position_hint = ''Overlay Position'' @ [CHR 0x0A] @ ''(max 7 numbers)''"

definition update_text :: "preferences \<Rightarrow> string \<Rightarrow> overlay_window \<Rightarrow> overlay_window" where
  "update_text cfg text w =
     (let numbers = str_split text;
          text' = (if length numbers > 7 then str_join '' '' (take 7 numbers) else text);
          label = (if str_strip text' \<noteq> [] then text'
                   else if \<not> overlay_locked cfg then position_hint
                   else [])
      in update_overlay_style cfg (w\<lparr>label_text := label\<rparr>))"

text \<open>
  \<^verbatim>\<open>set_click_through\<close>: the window flags change with the argument and the style is
  refreshed.
\<close>

definition set_click_through :: "preferences \<Rightarrow> bool \<Rightarrow> overlay_window \<Rightarrow> overlay_window" where
  "set_click_through cfg enabled w = update_overlay_style cfg (w\<lparr>click_through := enabled\<rparr>)"

text \<open>
  \<^verbatim>\<open>QWidget.move(x, y)\<close> takes two C integers: a Python integer outside their range
  raises \<^verbatim>\<open>OverflowError\<close> and the window stays where it was.
\<close>

definition move :: "int \<Rightarrow> int \<Rightarrow> overlay_window \<Rightarrow> py_exception + overlay_window" where
  "move x y w =
     (if - 2147483648 \<le> x \<and> x \<le> 2147483647 \<and> - 2147483648 \<le> y \<and> y \<le> 2147483647
      then Inr (w\<lparr>window_pos := (x, y)\<rparr>)
      else Inl OverflowError)"

text \<open>
  \<^verbatim>\<open>OverlayWindow.set_position\<close>: the persisted position when both coordinates are set,
  else centred on the primary screen, whose width is \<open>screen_width\<close>, 30 from the top.
\<close>

definition set_position :: "preferences \<Rightarrow> int \<Rightarrow> overlay_window \<Rightarrow> py_exception + overlay_window" where
  "set_position cfg screen_width w =
     (case (overlay_x cfg, overlay_y cfg) of
        (Some x, Some y) \<Rightarrow> move x y w
      | _ \<Rightarrow> move ((screen_width - 480) div 2) 30 w)"

text \<open>
  \<^verbatim>\<open>OverlayWindow.setup_ui\<close> creates the label with the empty text and calls
  \<^verbatim>\<open>update_text("")\<close>; a new window is not click-through and stands at the origin.
\<close>

definition setup_ui :: "preferences \<Rightarrow> overlay_window" where
  "setup_ui cfg =
     update_text cfg []
       \<lparr>label_text = [],
        label_sheet = \<lparr>text_color = [], font_size = [], bg_color = [], border_style = []\<rparr>,
        click_through = False,
        window_pos = (0, 0)\<rparr>"

text \<open>
  The constructor \<^verbatim>\<open>OverlayWindow(config)\<close>: \<^verbatim>\<open>setup_ui()\<close>, then \<^verbatim>\<open>set_position()\<close>, which
  can raise.
\<close>

definition OverlayWindow :: "preferences \<Rightarrow> int \<Rightarrow> py_exception + overlay_window" where
  "OverlayWindow cfg screen_width = set_position cfg screen_width (setup_ui cfg)"

subsection \<open>The main window: digit buffer, display, emitter\<close>

text \<open>
  \<open>logged_numbers\<close> is the digit buffer, \<open>display_label\<close> the text of the main window's
  label, \<open>overlay\<close> the overlay window when it is open, and \<open>typed\<close> the texts handed to
  \<^verbatim>\<open>Controller.type\<close> so far, oldest first (the output emitter's trace). The controller
  is a service of the platform; a call of \<^verbatim>\<open>type\<close> is taken to return. \<open>save_calls\<close> holds
  the configurations handed to \<^verbatim>\<open>save_config\<close> so far, oldest first: every entry is one
  write of the preferences file.
\<close>

record main_window =
  logged_numbers :: "string list"
  config :: preferences
  overlay :: "overlay_window option"
  display_label :: string
  typed :: "string list"
  save_calls :: "preferences list"

definition update_display :: "main_window \<Rightarrow> main_window" where
  "update_display s =
     (let text = str_join '' '' (logged_numbers s)
      in s\<lparr>display_label := text,
            overlay := map_option (update_text (config s) text) (overlay s)\<rparr>)"

definition clear_numbers :: "main_window \<Rightarrow> main_window" where
  "clear_numbers s = update_display (s\<lparr>logged_numbers := []\<rparr>)"

definition send_numbers :: "main_window \<Rightarrow> main_window" where
  "send_numbers s =
     (if logged_numbers s \<noteq> [] then
        (let text = str_join [] (logged_numbers s)
         in clear_numbers (s\<lparr>typed := typed s @ [text]\<rparr>))
      else s)"

text \<open>
  The listener callback. The first statement is the guarded append (nothing in it raises
  in this model, so the \<^verbatim>\<open>except\<close> branch is never taken); the second is the
  Enter/Backspace dispatch.
\<close>

definition append_digit :: "main_window \<Rightarrow> key \<Rightarrow> main_window" where
  "append_digit s k =
     (case k of
        KeyCode (Some vk) \<Rightarrow>
          (case NUMPAD_MAPPING vk of
             Some d \<Rightarrow>
               (if length (logged_numbers s) < 7
                then update_display (s\<lparr>logged_numbers := logged_numbers s @ [d]\<rparr>)
                else s)
           | None \<Rightarrow> s)
      | _ \<Rightarrow> s)"

definition on_key_press :: "main_window \<Rightarrow> key \<Rightarrow> main_window" where
  "on_key_press s k =
     (let s1 = append_digit s k
      in if k = Key ''enter'' then send_numbers s1
         else if k = Key ''backspace'' then clear_numbers s1
         else s1)"

text \<open>
  \<^verbatim>\<open>toggle_overlay\<close>: closes the overlay when there is one, else builds it, applies the
  lock state and hands it the current digits. \<open>screen_width\<close> is the width of the primary
  screen at that moment. When the constructor raises, the exception leaves the method
  before \<^verbatim>\<open>self.overlay\<close> is assigned.
\<close>

definition toggle_overlay :: "main_window \<Rightarrow> int \<Rightarrow> py_exception + main_window" where
  "toggle_overlay s screen_width =
     (case overlay s of
        Some w \<Rightarrow> Inr (s\<lparr>overlay := None\<rparr>)
      | None \<Rightarrow>
          (case OverlayWindow (config s) screen_width of
             Inl e \<Rightarrow> Inl e
           | Inr w0 \<Rightarrow>
               (let w1 = set_click_through (config s) (overlay_locked (config s)) w0;
                    current_text = str_join '' '' (logged_numbers s);
                    w2 = update_text (config s) current_text w1
                in Inr (s\<lparr>overlay := Some w2\<rparr>))))"

text \<open>
  \<^verbatim>\<open>OverlayWindow.update_color\<close> stores the colour in the shared configuration, which the
  caller below has already done, and refreshes the style. \<^verbatim>\<open>toggle_lock\<close>, \<^verbatim>\<open>pick_color\<close>
  and \<^verbatim>\<open>reset_default\<close> end with \<^verbatim>\<open>save_config(self.config)\<close>. The argument of
  \<open>pick_color\<close> is what the colour dialog gave: the name of a valid colour, or \<open>None\<close> when
  it was dismissed. The texts and styles of the main window's buttons are left out.
\<close>

definition toggle_lock :: "main_window \<Rightarrow> main_window" where
  "toggle_lock s =
     (let cfg = (config s)\<lparr>overlay_locked := \<not> overlay_locked (config s)\<rparr>;
          current_text = str_join '' '' (logged_numbers s)
      in s\<lparr>config := cfg,
            overlay :=
              map_option
                (\<lambda>w. update_text cfg current_text (set_click_through cfg (overlay_locked cfg) w))
                (overlay s),
            save_calls := save_calls s @ [cfg]\<rparr>)"

definition pick_color :: "main_window \<Rightarrow> string option \<Rightarrow> main_window" where
  "pick_color s choice =
     (case choice of
        Some hex_color \<Rightarrow>
          (let cfg = (config s)\<lparr>overlay_color := hex_color\<rparr>
           in s\<lparr>config := cfg,
                 overlay := map_option (update_overlay_style cfg) (overlay s),
                 save_calls := save_calls s @ [cfg]\<rparr>)
      | None \<Rightarrow> s)"

definition reset_default :: "main_window \<Rightarrow> main_window" where
  "reset_default s =
     (let cfg = (config s)\<lparr>overlay_color := ''#ffff00''\<rparr>
      in s\<lparr>config := cfg,
            overlay := map_option (update_overlay_style cfg) (overlay s),
            save_calls := save_calls s @ [cfg]\<rparr>)"

text \<open>\<^verbatim>\<open>save_settings\<close>, the Save button: one more write of the file.\<close>

definition save_settings :: "main_window \<Rightarrow> main_window" where
  "save_settings s = s\<lparr>save_calls := save_calls s @ [config s]\<rparr>"

text \<open>
  \<^verbatim>\<open>MainWindow.__init__\<close>: an empty buffer, the loaded configuration, no overlay, an
  empty display label; nothing has been typed and nothing saved.
\<close>

definition MainWindow :: "preferences \<Rightarrow> main_window" where
  "MainWindow cfg =
     \<lparr>logged_numbers = [], config = cfg, overlay = None, display_label = [], typed = [],
      save_calls = []\<rparr>"

text \<open>\<^verbatim>\<open>DEFAULT_CONFIG\<close> as the windows read it.\<close>

definition default_preferences :: preferences where
  "default_preferences =
     \<lparr>overlay_color = ''#ffff00'', overlay_x = None, overlay_y = None, overlay_locked = False\<rparr>"

text \<open>
  What can happen to a running main window: the listener delivers a key, or the user
  clicks the Clear button (connected to \<^verbatim>\<open>clear_numbers\<close>), the overlay button
  (\<^verbatim>\<open>toggle_overlay\<close>, with the screen's width at that moment), the lock button
  (\<^verbatim>\<open>toggle_lock\<close>), Pick Color (\<^verbatim>\<open>pick_color\<close>), Reset Default (\<^verbatim>\<open>reset_default\<close>) or Save
  (\<^verbatim>\<open>save_settings\<close>). An exception that leaves a slot leaves the window as it was.
  Dragging the windows and the position buttons are left out.
\<close>

datatype event =
    KeyPress key
  | ClearClicked
  | OverlayClicked int
  | LockClicked
  | ColorPicked "string option"
  | ResetClicked
  | SaveClicked

fun handle :: "main_window \<Rightarrow> event \<Rightarrow> main_window" where
  "handle s (KeyPress k) = on_key_press s k"
| "handle s ClearClicked = clear_numbers s"
| "handle s (OverlayClicked screen_width) =
     (case toggle_overlay s screen_width of Inr s' \<Rightarrow> s' | Inl e \<Rightarrow> s)"
| "handle s LockClicked = toggle_lock s"
| "handle s (ColorPicked choice) = pick_color s choice"
| "handle s ResetClicked = reset_default s"
| "handle s SaveClicked = save_settings s"

definition run :: "main_window \<Rightarrow> event list \<Rightarrow> main_window" where
  "run s es = foldl handle s es"

section \<open>Properties\<close>

subsection \<open>The numpad mapping\<close>

lemma vk_range:
  "96 \<le> vk \<and> vk \<le> 105 \<longleftrightarrow> vk \<in> {96, 97, 98, 99, 100, 101, 102, 103, 104, 105::int}"
  by (simp; arith)

lemma NUMPAD_MAPPING_Some_iff:
  "NUMPAD_MAPPING vk = Some d \<longleftrightarrow>
     96 \<le> vk \<and> vk \<le> 105 \<and> d = [''0123456789'' ! nat (vk - 96)]"
proof
  assume "NUMPAD_MAPPING vk = Some d"
  then show "96 \<le> vk \<and> vk \<le> 105 \<and> d = [''0123456789'' ! nat (vk - 96)]"
    by (auto simp: NUMPAD_MAPPING_def split: if_splits)
next
  assume a: "96 \<le> vk \<and> vk \<le> 105 \<and> d = [''0123456789'' ! nat (vk - 96)]"
  then have "vk \<in> {96, 97, 98, 99, 100, 101, 102, 103, 104, 105}"
    using vk_range [of vk] by blast
  with a show "NUMPAD_MAPPING vk = Some d"
    by (auto simp: NUMPAD_MAPPING_def)
qed

lemma NUMPAD_MAPPING_None_iff: "NUMPAD_MAPPING vk = None \<longleftrightarrow> vk < 96 \<or> 105 < vk"
proof -
  have "vk < 96 \<or> 105 < vk \<longleftrightarrow> \<not> (96 \<le> vk \<and> vk \<le> 105)" by arith
  then show ?thesis unfolding vk_range by (simp add: NUMPAD_MAPPING_def)
qed

subsection \<open>Frame lemmas of the main window's methods\<close>

lemma str_join_empty_sep: "str_join [] xs = concat xs"
  by (induction "[]::string" xs rule: str_join.induct) simp_all

lemma update_display_buffer [simp]: "logged_numbers (update_display s) = logged_numbers s"
  by (simp add: update_display_def Let_def)

lemma update_display_typed [simp]: "typed (update_display s) = typed s"
  by (simp add: update_display_def Let_def)

lemma update_display_config [simp]: "config (update_display s) = config s"
  by (simp add: update_display_def Let_def)

lemma update_display_label [simp]:
  "display_label (update_display s) = str_join '' '' (logged_numbers s)"
  by (simp add: update_display_def Let_def)

lemma update_display_overlay [simp]:
  "overlay (update_display s) =
     map_option (update_text (config s) (str_join '' '' (logged_numbers s))) (overlay s)"
  by (simp add: update_display_def Let_def)

lemma clear_numbers_buffer [simp]: "logged_numbers (clear_numbers s) = []"
  by (simp add: clear_numbers_def)

lemma clear_numbers_typed [simp]: "typed (clear_numbers s) = typed s"
  by (simp add: clear_numbers_def)

lemma clear_numbers_label [simp]: "display_label (clear_numbers s) = []"
  by (simp add: clear_numbers_def)

text \<open>
  \<^verbatim>\<open>update_text\<close> sets the label and the style sheet from its arguments alone, so a second
  call overrides the first.
\<close>

lemma update_text_twice [simp]:
  "update_text cfg t (update_text cfg' t' w) = update_text cfg t w"
  by (simp add: update_text_def update_overlay_style_def Let_def)

lemma clear_numbers_twice: "clear_numbers (clear_numbers s) = clear_numbers s"
  by (cases "overlay s") (simp_all add: clear_numbers_def update_display_def Let_def)

lemma append_digit_typed [simp]: "typed (append_digit s k) = typed s"
  by (simp add: append_digit_def split: key.splits option.splits)

lemma append_digit_length:
  "length (logged_numbers s) \<le> 7 \<Longrightarrow> length (logged_numbers (append_digit s k)) \<le> 7"
  by (simp add: append_digit_def split: key.splits option.splits)

lemma append_digit_full: "length (logged_numbers s) = 7 \<Longrightarrow> append_digit s k = s"
  by (simp add: append_digit_def split: key.splits option.splits)

lemma send_numbers_buffer [simp]: "logged_numbers (send_numbers s) = []"
  by (simp add: send_numbers_def Let_def)

lemma send_numbers_empty: "logged_numbers s = [] \<Longrightarrow> send_numbers s = s"
  by (simp add: send_numbers_def)

lemma send_numbers_typed:
  "typed (send_numbers s) =
     (if logged_numbers s = [] then typed s else typed s @ [concat (logged_numbers s)])"
  by (simp add: send_numbers_def Let_def str_join_empty_sep)

text \<open>
  What \<^verbatim>\<open>toggle_overlay\<close> does when it returns: only the overlay changes, and a newly
  opened overlay has been handed the current digits last.
\<close>

lemma toggle_overlay_Inr:
  assumes "toggle_overlay s sw = Inr s'"
  shows "\<exists>ov. s' = s\<lparr>overlay := ov\<rparr> \<and>
           (\<forall>w. ov = Some w \<longrightarrow>
              update_text (config s) (str_join '' '' (logged_numbers s)) w = w)"
proof (cases "overlay s")
  case (Some w)
  with assms have "s' = s\<lparr>overlay := None\<rparr>" by (simp add: toggle_overlay_def)
  then show ?thesis by blast
next
  case None
  with assms obtain w0 where "OverlayWindow (config s) sw = Inr w0"
    and s': "s' = s\<lparr>overlay := Some (update_text (config s) (str_join '' '' (logged_numbers s))
               (set_click_through (config s) (overlay_locked (config s)) w0))\<rparr>"
    by (auto simp: toggle_overlay_def Let_def split: sum.splits)
  have "update_text (config s) (str_join '' '' (logged_numbers s))
          (update_text (config s) (str_join '' '' (logged_numbers s))
             (set_click_through (config s) (overlay_locked (config s)) w0)) =
        update_text (config s) (str_join '' '' (logged_numbers s))
             (set_click_through (config s) (overlay_locked (config s)) w0)"
    by (rule update_text_twice)
  with s' show ?thesis by blast
qed

lemma handle_overlay_cases:
  "handle s (OverlayClicked sw) = s \<or>
   (\<exists>ov. handle s (OverlayClicked sw) = s\<lparr>overlay := ov\<rparr> \<and>
      (\<forall>w. ov = Some w \<longrightarrow>
         update_text (config s) (str_join '' '' (logged_numbers s)) w = w))"
proof (cases "toggle_overlay s sw")
  case (Inl e)
  then show ?thesis by simp
next
  case (Inr s')
  with toggle_overlay_Inr [OF Inr] show ?thesis by auto
qed

lemma handle_overlay_buffer [simp]:
  "logged_numbers (handle s (OverlayClicked sw)) = logged_numbers s"
  by (cases "toggle_overlay s sw") (auto dest: toggle_overlay_Inr)

lemma save_settings_buffer [simp]: "logged_numbers (save_settings s) = logged_numbers s"
  by (simp add: save_settings_def)

lemma on_key_press_KeyCode [simp]: "on_key_press s (KeyCode v) = append_digit s (KeyCode v)"
  by (simp add: on_key_press_def)

lemma on_key_press_NoKey [simp]: "on_key_press s NoKey = s"
  by (simp add: on_key_press_def append_digit_def)

lemma append_digit_Key [simp]: "append_digit s (Key n) = s"
  by (simp add: append_digit_def)

lemma on_key_press_enter [simp]: "on_key_press s (Key ''enter'') = send_numbers s"
  by (simp add: on_key_press_def)

lemma on_key_press_backspace [simp]: "on_key_press s (Key ''backspace'') = clear_numbers s"
  by (simp add: on_key_press_def)

lemma on_key_press_other_Key:
  "n \<noteq> ''enter'' \<Longrightarrow> n \<noteq> ''backspace'' \<Longrightarrow> on_key_press s (Key n) = s"
  by (simp add: on_key_press_def)

lemma append_digit_Some:
  "NUMPAD_MAPPING vk = Some d \<Longrightarrow>
   append_digit s (KeyCode (Some vk)) =
     (if length (logged_numbers s) < 7
      then update_display (s\<lparr>logged_numbers := logged_numbers s @ [d]\<rparr>) else s)"
  by (simp add: append_digit_def)

lemma append_digit_None:
  "NUMPAD_MAPPING vk = None \<Longrightarrow> append_digit s (KeyCode (Some vk)) = s"
  by (simp add: append_digit_def)

lemma append_digit_no_vk [simp]: "append_digit s (KeyCode None) = s"
  by (simp add: append_digit_def)

lemma on_key_press_length:
  "length (logged_numbers s) \<le> 7 \<Longrightarrow> length (logged_numbers (on_key_press s k)) \<le> 7"
  by (simp add: on_key_press_def Let_def append_digit_length)

lemma toggle_lock_buffer [simp]: "logged_numbers (toggle_lock s) = logged_numbers s"
  by (simp add: toggle_lock_def Let_def)

lemma pick_color_buffer [simp]: "logged_numbers (pick_color s choice) = logged_numbers s"
  by (simp add: pick_color_def Let_def split: option.splits)

lemma reset_default_buffer [simp]: "logged_numbers (reset_default s) = logged_numbers s"
  by (simp add: reset_default_def Let_def)

lemma handle_length:
  "length (logged_numbers s) \<le> 7 \<Longrightarrow> length (logged_numbers (handle s e)) \<le> 7"
  by (cases e) (simp_all add: on_key_press_length del: handle.simps(3))

lemma run_length:
  "length (logged_numbers s) \<le> 7 \<Longrightarrow> length (logged_numbers (run s es)) \<le> 7"
  unfolding run_def by (induction es arbitrary: s) (simp_all add: handle_length)

subsection \<open>Flush\<close>

text \<open>
  Claim C1. \<^verbatim>\<open>send_numbers\<close> (the flush) on a non-empty buffer hands exactly one text to the
  emitter, the concatenation of the buffered digits, and leaves the buffer empty; on an
  empty buffer it changes nothing, so it emits nothing. A second flush right after the
  first emits nothing more, and a digit appended after the flush is not emitted: it waits
  in the buffer. Key events reach the callback one at a time, so this is all a flush can
  meet.
\<close>

theorem send_numbers_emits_once:
  "(logged_numbers s \<noteq> [] \<longrightarrow>
      typed (send_numbers s) = typed s @ [concat (logged_numbers s)] \<and>
      logged_numbers (send_numbers s) = []) \<and>
   (logged_numbers s = [] \<longrightarrow> send_numbers s = s) \<and>
   typed (send_numbers (send_numbers s)) = typed (send_numbers s) \<and>
   typed (append_digit (send_numbers s) k) = typed (send_numbers s)"
  by (simp add: send_numbers_typed send_numbers_empty)

theorem send_numbers_emits_once_witness:
  "logged_numbers ((MainWindow default_preferences)\<lparr>logged_numbers := [''4'', ''2'']\<rparr>) \<noteq> [] \<and>
   typed (send_numbers ((MainWindow default_preferences)\<lparr>logged_numbers := [''4'', ''2'']\<rparr>))
     = [''42''] \<and>
   logged_numbers
     (send_numbers ((MainWindow default_preferences)\<lparr>logged_numbers := [''4'', ''2'']\<rparr>)) = [] \<and>
   logged_numbers (MainWindow default_preferences) = [] \<and>
   send_numbers (MainWindow default_preferences) = MainWindow default_preferences"
  using send_numbers_emits_once
          [of "(MainWindow default_preferences)\<lparr>logged_numbers := [''4'', ''2'']\<rparr>"]
        send_numbers_emits_once [of "MainWindow default_preferences"]
  by (simp add: MainWindow_def)

subsection \<open>Clear\<close>

text \<open>
  Claim C4. \<^verbatim>\<open>clear_numbers\<close> leaves the buffer empty whatever the state was, and clearing
  twice gives the same state (buffer, display label, overlay, emitter trace) as clearing
  once.
\<close>

theorem clear_numbers_empties_idempotent:
  "logged_numbers (clear_numbers s) = [] \<and> clear_numbers (clear_numbers s) = clear_numbers s"
  by (simp add: clear_numbers_twice)

subsection \<open>The bound on the buffer\<close>

text \<open>
  Claim C2. In every state the main window reaches from its constructor through key
  events and clicks on its buttons, the buffer holds at most 7 digits; each operation
  (the guarded append, \<^verbatim>\<open>clear_numbers\<close>, \<^verbatim>\<open>send_numbers\<close>, any event) keeps the bound; and a key code arriving while the buffer holds 7 digits leaves the
  whole state as it was. The functions are total: there is no error.
\<close>

theorem buffer_length_at_most_7:
  "length (logged_numbers (run (MainWindow cfg) es)) \<le> 7 \<and>
   (length (logged_numbers s) \<le> 7 \<longrightarrow>
      length (logged_numbers (handle s e)) \<le> 7 \<and>
      length (logged_numbers (send_numbers s)) \<le> 7 \<and>
      length (logged_numbers (clear_numbers s)) \<le> 7 \<and>
      length (logged_numbers (append_digit s k)) \<le> 7) \<and>
   (length (logged_numbers s) = 7 \<longrightarrow> on_key_press s (KeyCode v) = s)"
proof -
  have "length (logged_numbers (MainWindow cfg)) \<le> 7" by (simp add: MainWindow_def)
  then have "length (logged_numbers (run (MainWindow cfg) es)) \<le> 7" by (rule run_length)
  then show ?thesis by (simp add: handle_length append_digit_length append_digit_full)
qed

theorem buffer_length_at_most_7_witness:
  "length (logged_numbers ((MainWindow default_preferences)
     \<lparr>logged_numbers := [''1'', ''2'', ''3'', ''4'', ''5'', ''6'', ''7'']\<rparr>)) = 7 \<and>
   on_key_press ((MainWindow default_preferences)
     \<lparr>logged_numbers := [''1'', ''2'', ''3'', ''4'', ''5'', ''6'', ''7'']\<rparr>) (KeyCode (Some 104)) =
     (MainWindow default_preferences)
       \<lparr>logged_numbers := [''1'', ''2'', ''3'', ''4'', ''5'', ''6'', ''7'']\<rparr> \<and>
   length (logged_numbers (handle ((MainWindow default_preferences)
     \<lparr>logged_numbers := [''1'', ''2'', ''3'', ''4'', ''5'', ''6'', ''7'']\<rparr>)
       (KeyPress (KeyCode (Some 104))))) \<le> 7"
  using buffer_length_at_most_7
          [of default_preferences "[]"
              "(MainWindow default_preferences)
                 \<lparr>logged_numbers := [''1'', ''2'', ''3'', ''4'', ''5'', ''6'', ''7'']\<rparr>"
              "KeyPress (KeyCode (Some 104))" NoKey "Some 104"]
  by (simp add: MainWindow_def)

subsection \<open>Appending digits and the spaced rendering\<close>

lemma press_digits_buffer:
  assumes "\<forall>vk\<in>set vks. 96 \<le> vk \<and> vk \<le> 105" and "length (logged_numbers s) \<le> 7"
  shows "logged_numbers (foldl on_key_press s (map (\<lambda>vk. KeyCode (Some vk)) vks)) =
           take 7 (logged_numbers s @ map (\<lambda>vk. [''0123456789'' ! nat (vk - 96)]) vks)"
  using assms
proof (induction vks arbitrary: s)
  case Nil
  then show ?case by simp
next
  case (Cons vk vks)
  let ?d = "[''0123456789'' ! nat (vk - 96)]"
  let ?s1 = "append_digit s (KeyCode (Some vk))"
  from Cons.prems have m: "NUMPAD_MAPPING vk = Some ?d"
    by (simp add: NUMPAD_MAPPING_Some_iff)
  have len: "length (logged_numbers ?s1) \<le> 7"
    using Cons.prems(2) by (rule append_digit_length)
  from Cons.prems have rest: "\<forall>vk\<in>set vks. 96 \<le> vk \<and> vk \<le> 105" by simp
  have ih: "logged_numbers (foldl on_key_press ?s1 (map (\<lambda>vk. KeyCode (Some vk)) vks)) =
           take 7 (logged_numbers ?s1 @ map (\<lambda>vk. [''0123456789'' ! nat (vk - 96)]) vks)"
    using rest len by (rule Cons.IH)
  show ?case
  proof (cases "length (logged_numbers s) < 7")
    case True
    then have "logged_numbers ?s1 = logged_numbers s @ [?d]"
      by (simp add: append_digit_Some [OF m])
    with ih show ?thesis by simp
  next
    case False
    with Cons.prems(2) have full: "length (logged_numbers s) = 7" by simp
    then have "?s1 = s" by (rule append_digit_full)
    with ih full show ?thesis by simp
  qed
qed

lemma append_digit_sync:
  "display_label s = str_join '' '' (logged_numbers s) \<Longrightarrow>
   display_label (append_digit s k) = str_join '' '' (logged_numbers (append_digit s k))"
  by (simp add: append_digit_def split: key.splits option.splits)

lemma press_digits_sync:
  "display_label s = str_join '' '' (logged_numbers s) \<Longrightarrow>
   display_label (foldl on_key_press s (map (\<lambda>vk. KeyCode (Some vk)) vks)) =
     str_join '' '' (logged_numbers (foldl on_key_press s (map (\<lambda>vk. KeyCode (Some vk)) vks)))"
  by (induction vks arbitrary: s) (simp_all add: append_digit_sync)

text \<open>
  Claim C3. Starting from an empty buffer and an empty display label, after the keypad
  codes \<open>vks\<close> (each in 96 to 105) have been delivered in order, the buffer holds the first
  7 of their digits and the display label is \<^verbatim>\<open>' '.join\<close> of them, in the order of the
  presses; with at most 7 presses that is all of them. Presses beyond the seventh change
  neither.
\<close>

theorem digits_render_spaced:
  assumes "\<forall>vk\<in>set vks. 96 \<le> vk \<and> vk \<le> 105"
    and "logged_numbers s = []" and "display_label s = []"
  shows "logged_numbers (foldl on_key_press s (map (\<lambda>vk. KeyCode (Some vk)) vks)) =
           take 7 (map (\<lambda>vk. [''0123456789'' ! nat (vk - 96)]) vks) \<and>
         display_label (foldl on_key_press s (map (\<lambda>vk. KeyCode (Some vk)) vks)) =
           str_join '' '' (take 7 (map (\<lambda>vk. [''0123456789'' ! nat (vk - 96)]) vks)) \<and>
         (length vks \<le> 7 \<longrightarrow>
            display_label (foldl on_key_press s (map (\<lambda>vk. KeyCode (Some vk)) vks)) =
              str_join '' '' (map (\<lambda>vk. [''0123456789'' ! nat (vk - 96)]) vks))"
proof -
  have b: "logged_numbers (foldl on_key_press s (map (\<lambda>vk. KeyCode (Some vk)) vks)) =
           take 7 (map (\<lambda>vk. [''0123456789'' ! nat (vk - 96)]) vks)"
    using press_digits_buffer [OF assms(1), of s] assms(2) by simp
  have "display_label s = str_join '' '' (logged_numbers s)"
    using assms(2,3) by simp
  then have "display_label (foldl on_key_press s (map (\<lambda>vk. KeyCode (Some vk)) vks)) =
     str_join '' '' (logged_numbers (foldl on_key_press s (map (\<lambda>vk. KeyCode (Some vk)) vks)))"
    by (rule press_digits_sync)
  with b show ?thesis by simp
qed

theorem digits_render_spaced_witness:
  "list_all (\<lambda>vk. 96 \<le> vk \<and> vk \<le> 105) [97, 98, 99::int] \<and>
   length [97, 98, 99::int] \<le> 7 \<and>
   display_label (foldl on_key_press (MainWindow default_preferences)
      (map (\<lambda>vk. KeyCode (Some vk)) [97, 98, 99])) = ''1 2 3''"
  using digits_render_spaced [of "[97, 98, 99]" "MainWindow default_preferences"]
  by (simp add: MainWindow_def)

subsection \<open>Which keys do anything\<close>

text \<open>
  Claim C9. The callback appends a digit \<open>d\<close> only for a \<^verbatim>\<open>KeyCode\<close> whose \<^verbatim>\<open>vk\<close> is in 96 to
  105 and maps to \<open>d\<close>. A key that is neither Enter nor Backspace nor such a key code
  leaves the whole state unchanged: nothing is appended and nothing is emitted. That
  covers the codes 48 to 57 of the top-row digit keys, a key code without \<^verbatim>\<open>vk\<close>, the other
  members of \<^verbatim>\<open>Key\<close>, and \<^verbatim>\<open>None\<close>. The callback returns a state for every key.
\<close>

theorem on_key_press_classification:
  "(logged_numbers (on_key_press s k) = logged_numbers s @ [d] \<longrightarrow>
      (\<exists>vk. k = KeyCode (Some vk) \<and> 96 \<le> vk \<and> vk \<le> 105 \<and> NUMPAD_MAPPING vk = Some d)) \<and>
   (k \<noteq> Key ''enter'' \<and> k \<noteq> Key ''backspace'' \<and>
    (\<forall>vk. k = KeyCode (Some vk) \<longrightarrow> vk < 96 \<or> 105 < vk) \<longrightarrow> on_key_press s k = s) \<and>
   (48 \<le> vk' \<and> vk' \<le> 57 \<longrightarrow> on_key_press s (KeyCode (Some vk')) = s) \<and>
   on_key_press s (KeyCode None) = s \<and> on_key_press s NoKey = s"
proof (intro conjI impI)
  assume a: "logged_numbers (on_key_press s k) = logged_numbers s @ [d]"
  show "\<exists>vk. k = KeyCode (Some vk) \<and> 96 \<le> vk \<and> vk \<le> 105 \<and> NUMPAD_MAPPING vk = Some d"
  proof (cases k)
    case (KeyCode v)
    show ?thesis
    proof (cases v)
      case None
      with a KeyCode show ?thesis by simp
    next
      case (Some vk)
      show ?thesis
      proof (cases "NUMPAD_MAPPING vk")
        case None
        with a KeyCode Some show ?thesis by (simp add: append_digit_None)
      next
        case (Some d')
        with a KeyCode \<open>v = Some vk\<close> have "d' = d"
          by (simp add: append_digit_Some split: if_splits)
        with Some KeyCode \<open>v = Some vk\<close> show ?thesis
          by (simp add: NUMPAD_MAPPING_Some_iff)
      qed
    qed
  next
    case (Key n)
    with a show ?thesis by (simp add: on_key_press_def split: if_splits)
  next
    case NoKey
    with a show ?thesis by simp
  qed
next
  assume a: "k \<noteq> Key ''enter'' \<and> k \<noteq> Key ''backspace'' \<and>
    (\<forall>vk. k = KeyCode (Some vk) \<longrightarrow> vk < 96 \<or> 105 < vk)"
  show "on_key_press s k = s"
  proof (cases k)
    case (KeyCode v)
    with a show ?thesis
      by (cases v) (simp_all add: append_digit_None NUMPAD_MAPPING_None_iff)
  next
    case (Key n)
    with a show ?thesis by (simp add: on_key_press_other_Key)
  next
    case NoKey
    then show ?thesis by simp
  qed
next
  assume "48 \<le> vk' \<and> vk' \<le> 57"
  then have "NUMPAD_MAPPING vk' = None" by (simp add: NUMPAD_MAPPING_None_iff)
  then show "on_key_press s (KeyCode (Some vk')) = s" by (simp add: append_digit_None)
qed simp_all

theorem on_key_press_classification_witness:
  "logged_numbers (on_key_press (MainWindow default_preferences) (KeyCode (Some 101))) =
     logged_numbers (MainWindow default_preferences) @ [''5''] \<and>
   NUMPAD_MAPPING 101 = Some ''5'' \<and>
   Key ''shift'' \<noteq> Key ''enter'' \<and> Key ''shift'' \<noteq> Key ''backspace'' \<and>
   on_key_press (MainWindow default_preferences) (Key ''shift'') = MainWindow default_preferences \<and>
   (48::int) \<le> 49 \<and> (49::int) \<le> 57 \<and>
   on_key_press (MainWindow default_preferences) (KeyCode (Some 49)) =
     MainWindow default_preferences"
  using on_key_press_classification
          [of "MainWindow default_preferences" "KeyCode (Some 101)" "''5''" 49]
        on_key_press_classification
          [of "MainWindow default_preferences" "Key ''shift''" "''5''" 49]
  by (simp add: MainWindow_def append_digit_def NUMPAD_MAPPING_def update_display_def)

subsection \<open>The preference store\<close>

lemma keys_dict_setitem:
  "fst ` set (dict_setitem kvs k v) = insert k (fst ` set kvs)"
  by (induction kvs k v rule: dict_setitem.induct) auto

lemma py_setitem_Inr_iff:
  "py_setitem c k v = Inr c' \<longleftrightarrow> (\<exists>kvs. c = JObject kvs \<and> c' = JObject (dict_setitem kvs k v))"
  by (cases c) (auto simp: py_setitem_def)

lemma py_in_after_setitem:
  "py_setitem c k v = Inr c' \<Longrightarrow> py_in k' c' = Inr (k' = k \<or> py_in k' c = Inr True)"
  by (auto simp: py_setitem_Inr_iff py_in_def keys_dict_setitem)

lemma ensure_keys_Cons:
  "ensure_keys ((k, d) # items) c = Inr c' \<longleftrightarrow>
     (py_in k c = Inr True \<and> ensure_keys items c = Inr c') \<or>
     (py_in k c = Inr False \<and>
      (\<exists>c1. py_setitem c k d = Inr c1 \<and> ensure_keys items c1 = Inr c'))"
  by (auto split: sum.splits bool.splits)

lemma ensure_keys_keeps:
  "py_in k c = Inr True \<Longrightarrow> ensure_keys items c = Inr c' \<Longrightarrow> py_in k c' = Inr True"
proof (induction items arbitrary: c)
  case Nil
  then show ?case by simp
next
  case (Cons a items)
  obtain k0 d where a: "a = (k0, d)" by (cases a)
  from Cons.prems(2) consider
      "ensure_keys items c = Inr c'"
    | c1 where "py_setitem c k0 d = Inr c1" "ensure_keys items c1 = Inr c'"
    unfolding a ensure_keys_Cons by blast
  then show ?case
  proof cases
    case 1
    with Cons.prems(1) show ?thesis by (rule Cons.IH)
  next
    case 2
    have "py_in k c1 = Inr True"
      using py_in_after_setitem [OF 2(1), of k] Cons.prems(1) by simp
    then show ?thesis using 2(2) by (rule Cons.IH)
  qed
qed

lemma ensure_keys_all_in:
  "ensure_keys items c = Inr c' \<Longrightarrow> (k, v) \<in> set items \<Longrightarrow> py_in k c' = Inr True"
proof (induction items arbitrary: c)
  case Nil
  then show ?case by simp
next
  case (Cons a items)
  obtain k0 d where a: "a = (k0, d)" by (cases a)
  from Cons.prems(1) consider
      "py_in k0 c = Inr True" "ensure_keys items c = Inr c'"
    | c1 where "py_setitem c k0 d = Inr c1" "ensure_keys items c1 = Inr c'"
    unfolding a ensure_keys_Cons by blast
  then show ?case
  proof cases
    case 1
    show ?thesis
    proof (cases "(k, v) \<in> set items")
      case True
      with 1(2) show ?thesis by (rule Cons.IH)
    next
      case False
      with Cons.prems(2) a have "k = k0" by simp
      with 1 show ?thesis by (simp add: ensure_keys_keeps)
    qed
  next
    case 2
    show ?thesis
    proof (cases "(k, v) \<in> set items")
      case True
      with 2(2) show ?thesis by (rule Cons.IH)
    next
      case False
      with Cons.prems(2) a have "k = k0" by simp
      then have "py_in k c1 = Inr True"
        using py_in_after_setitem [OF 2(1), of k] by simp
      then show ?thesis using 2(2) by (rule ensure_keys_keeps)
    qed
  qed
qed

lemma ensure_keys_fixed:
  "(\<And>k v. (k, v) \<in> set items \<Longrightarrow> py_in k c = Inr True) \<Longrightarrow> ensure_keys items c = Inr c"
proof (induction items)
  case Nil
  then show ?case by simp
next
  case (Cons a items)
  obtain k0 d where a: "a = (k0, d)" by (cases a)
  have "py_in k0 c = Inr True" using Cons.prems [of k0 d] a by simp
  moreover have "ensure_keys items c = Inr c"
  proof (rule Cons.IH)
    fix k v assume "(k, v) \<in> set items"
    then show "py_in k c = Inr True" using Cons.prems [of k v] by simp
  qed
  ultimately show ?case by (simp add: a)
qed

lemma ensure_keys_idem:
  "ensure_keys items c = Inr c' \<Longrightarrow> ensure_keys items c' = Inr c'"
  by (rule ensure_keys_fixed) (rule ensure_keys_all_in)

lemma ensure_keys_defaults: "ensure_keys DEFAULT_CONFIG (JObject DEFAULT_CONFIG) = Inr (JObject DEFAULT_CONFIG)"
  by (rule ensure_keys_fixed) (force simp: py_in_def)

lemma load_config_cases:
  "load_config f = JObject DEFAULT_CONFIG \<or>
   (file_exists f \<and> readable f \<and>
    (\<exists>c. json_content f = Some c \<and> ensure_keys DEFAULT_CONFIG c = Inr (load_config f)))"
  by (auto simp: load_config_def load_config_try_def split: option.splits sum.splits)

lemma load_config_fixed:
  "ensure_keys DEFAULT_CONFIG c = Inr c \<Longrightarrow>
   load_config (f\<lparr>file_exists := True, json_content := Some c\<rparr>) =
     (if readable f then c else JObject DEFAULT_CONFIG)"
  by (simp add: load_config_def load_config_try_def)

text \<open>
  Claim C5. When \<^verbatim>\<open>config.json\<close> does not exist, cannot be opened for reading, or holds
  something \<^verbatim>\<open>json.load\<close> rejects, \<^verbatim>\<open>load_config\<close> returns exactly the default record.
  It returns a value in every case: the exceptions of the \<^verbatim>\<open>try\<close> block end in the
  \<^verbatim>\<open>except\<close> clause.
\<close>

theorem load_config_defaults_on_failure:
  "\<not> file_exists f \<or> \<not> readable f \<or> json_content f = None \<Longrightarrow>
   load_config f =
     JObject [(''overlay_color'', JString ''#ffff00''), (''overlay_x'', JNull),
              (''overlay_y'', JNull), (''overlay_locked'', JBool False)]"
  by (auto simp: load_config_def load_config_try_def DEFAULT_CONFIG_def)

theorem load_config_defaults_on_failure_witness:
  "\<not> file_exists \<lparr>file_exists = False, readable = True, json_content = None, on_write = Written\<rparr> \<and>
   load_config \<lparr>file_exists = False, readable = True, json_content = None, on_write = Written\<rparr> =
     JObject [(''overlay_color'', JString ''#ffff00''), (''overlay_x'', JNull),
              (''overlay_y'', JNull), (''overlay_locked'', JBool False)] \<and>
   \<not> readable \<lparr>file_exists = True, readable = False,
        json_content = Some (JObject []), on_write = Written\<rparr> \<and>
   load_config \<lparr>file_exists = True, readable = False,
        json_content = Some (JObject []), on_write = Written\<rparr> =
     JObject [(''overlay_color'', JString ''#ffff00''), (''overlay_x'', JNull),
              (''overlay_y'', JNull), (''overlay_locked'', JBool False)] \<and>
   json_content \<lparr>file_exists = True, readable = True, json_content = None, on_write = Written\<rparr>
     = None \<and>
   load_config \<lparr>file_exists = True, readable = True, json_content = None, on_write = Written\<rparr> =
     JObject [(''overlay_color'', JString ''#ffff00''), (''overlay_x'', JNull),
              (''overlay_y'', JNull), (''overlay_locked'', JBool False)]"
  using load_config_defaults_on_failure
          [of "\<lparr>file_exists = False, readable = True, json_content = None, on_write = Written\<rparr>"]
        load_config_defaults_on_failure
          [of "\<lparr>file_exists = True, readable = False,
                 json_content = Some (JObject []), on_write = Written\<rparr>"]
        load_config_defaults_on_failure
          [of "\<lparr>file_exists = True, readable = True, json_content = None, on_write = Written\<rparr>"]
  by simp

text \<open>
  Claim C6 says that whatever the file holds, the loaded value is a record with the four
  recognised keys. The loop of \<^verbatim>\<open>load_config\<close> tests \<^verbatim>\<open>key not in config\<close> before it
  assigns, and on a list \<^verbatim>\<open>in\<close> is membership: a file that holds the JSON array of the
  four key names passes all four tests, no assignment is tried, no exception is raised,
  and the list itself is returned.
\<close>

theorem load_config_list_of_key_names:
  "load_config
     \<lparr>file_exists = True, readable = True,
      json_content = Some (JArray [JString ''overlay_color'', JString ''overlay_x'',
                                   JString ''overlay_y'', JString ''overlay_locked'']),
      on_write = Written\<rparr> =
   JArray [JString ''overlay_color'', JString ''overlay_x'',
           JString ''overlay_y'', JString ''overlay_locked''] \<and>
   (\<forall>kvs. load_config
     \<lparr>file_exists = True, readable = True,
      json_content = Some (JArray [JString ''overlay_color'', JString ''overlay_x'',
                                   JString ''overlay_y'', JString ''overlay_locked'']),
      on_write = Written\<rparr> \<noteq> JObject kvs)"
  by (simp add: load_config_def load_config_try_def DEFAULT_CONFIG_def py_in_def)


text \<open>
  For a file that holds a JSON object the claim does hold: the loaded dictionary keeps
  the file's entries, in their order and with their values, followed by the defaults of
  the recognised keys the file lacks, so all four keys are present.
\<close>

lemma dict_setitem_new: "k \<notin> fst ` set kvs \<Longrightarrow> dict_setitem kvs k v = kvs @ [(k, v)]"
  by (induction kvs k v rule: dict_setitem.induct) auto

lemma ensure_keys_object:
  "\<exists>added. ensure_keys items (JObject kvs) = Inr (JObject (kvs @ added)) \<and>
           set added \<subseteq> set items \<and> fst ` set added \<inter> fst ` set kvs = {}"
proof (induction items arbitrary: kvs)
  case Nil
  show ?case by simp
next
  case (Cons a items)
  obtain k d where a: "a = (k, d)" by (cases a)
  show ?case
  proof (cases "k \<in> fst ` set kvs")
    case True
    from Cons.IH [of kvs] obtain added where
      "ensure_keys items (JObject kvs) = Inr (JObject (kvs @ added))"
      "set added \<subseteq> set items" "fst ` set added \<inter> fst ` set kvs = {}" by blast
    with True a show ?thesis by (auto simp: py_in_def)
  next
    case False
    from Cons.IH [of "kvs @ [(k, d)]"] obtain added where r:
      "ensure_keys items (JObject (kvs @ [(k, d)])) = Inr (JObject ((kvs @ [(k, d)]) @ added))"
      "set added \<subseteq> set items" "fst ` set added \<inter> fst ` set (kvs @ [(k, d)]) = {}" by blast
    have "ensure_keys (a # items) (JObject kvs) = Inr (JObject (kvs @ ((k, d) # added)))"
      using False r(1) by (simp add: a py_in_def py_setitem_def dict_setitem_new)
    moreover have "set ((k, d) # added) \<subseteq> set (a # items)"
      using r(2) a by auto
    moreover have "fst ` set ((k, d) # added) \<inter> fst ` set kvs = {}"
      using r(3) False by auto
    ultimately show ?thesis by blast
  qed
qed

theorem load_config_object:
  assumes "file_exists f" and "readable f" and "json_content f = Some (JObject kvs)"
  shows "\<exists>added. load_config f = JObject (kvs @ added) \<and>
           set added \<subseteq> set DEFAULT_CONFIG \<and>
           fst ` set added \<inter> fst ` set kvs = {} \<and>
           {''overlay_color'', ''overlay_x'', ''overlay_y'', ''overlay_locked''}
             \<subseteq> fst ` set (kvs @ added)"
proof -
  from ensure_keys_object [of DEFAULT_CONFIG kvs] obtain added where
    e: "ensure_keys DEFAULT_CONFIG (JObject kvs) = Inr (JObject (kvs @ added))"
    and sub: "set added \<subseteq> set DEFAULT_CONFIG"
    and new: "fst ` set added \<inter> fst ` set kvs = {}" by blast
  from assms e have l: "load_config f = JObject (kvs @ added)"
    by (simp add: load_config_def load_config_try_def)
  have allin: "py_in k (JObject (kvs @ added)) = Inr True" if "(k, v) \<in> set DEFAULT_CONFIG" for k v
    using e that by (rule ensure_keys_all_in)
  have k1: "''overlay_color'' \<in> fst ` set (kvs @ added)"
    using allin [of "''overlay_color''" "JString ''#ffff00''"]
    by (simp add: DEFAULT_CONFIG_def py_in_def image_Un)
  have k2: "''overlay_x'' \<in> fst ` set (kvs @ added)"
    using allin [of "''overlay_x''" JNull]
    by (simp add: DEFAULT_CONFIG_def py_in_def image_Un)
  have k3: "''overlay_y'' \<in> fst ` set (kvs @ added)"
    using allin [of "''overlay_y''" JNull]
    by (simp add: DEFAULT_CONFIG_def py_in_def image_Un)
  have k4: "''overlay_locked'' \<in> fst ` set (kvs @ added)"
    using allin [of "''overlay_locked''" "JBool False"]
    by (simp add: DEFAULT_CONFIG_def py_in_def image_Un)
  from k1 k2 k3 k4 have "{''overlay_color'', ''overlay_x'', ''overlay_y'', ''overlay_locked''}
      \<subseteq> fst ` set (kvs @ added)"
    by blast
  with l sub new show ?thesis by blast
qed

theorem load_config_object_witness:
  "load_config
     \<lparr>file_exists = True, readable = True,
      json_content = Some (JObject [(''overlay_locked'', JBool True), (''theme'', JString ''dark'')]),
      on_write = Written\<rparr> =
   JObject [(''overlay_locked'', JBool True), (''theme'', JString ''dark''),
            (''overlay_color'', JString ''#ffff00''), (''overlay_x'', JNull),
            (''overlay_y'', JNull)]"
  using load_config_object
    [of "\<lparr>file_exists = True, readable = True,
      json_content = Some (JObject [(''overlay_locked'', JBool True), (''theme'', JString ''dark'')]),
      on_write = Written\<rparr>" "[(''overlay_locked'', JBool True), (''theme'', JString ''dark'')]"]
  by (simp add: load_config_def load_config_try_def DEFAULT_CONFIG_def py_in_def py_setitem_def)

text \<open>
  Claim C8. When \<^verbatim>\<open>save_config\<close> reports success on what \<^verbatim>\<open>load_config\<close> returned, loading
  again returns the same value as the first load, whatever the file was before. The
  file's text is not modelled: a successful \<^verbatim>\<open>json.dump\<close> leaves a file that parses back
  to the dumped value, and what is proved is that \<^verbatim>\<open>load_config\<close> leaves its own results
  unchanged.
\<close>

theorem save_load_roundtrip:
  assumes "fst (save_config f (load_config f))"
  shows "load_config (snd (save_config f (load_config f))) = load_config f"
proof -
  from assms have w: "on_write f = Written"
    by (cases "on_write f") (simp_all add: save_config_def)
  then have written: "snd (save_config f (load_config f)) =
      f\<lparr>file_exists := True, json_content := Some (load_config f)\<rparr>"
    by (simp add: save_config_def)
  from load_config_cases [of f] show ?thesis
  proof
    assume d: "load_config f = JObject DEFAULT_CONFIG"
    from written have "load_config (snd (save_config f (load_config f))) =
        load_config (f\<lparr>file_exists := True, json_content := Some (JObject DEFAULT_CONFIG)\<rparr>)"
      by (simp add: d)
    also have "\<dots> = (if readable f then JObject DEFAULT_CONFIG else JObject DEFAULT_CONFIG)"
      using ensure_keys_defaults by (rule load_config_fixed)
    finally show ?thesis by (simp add: d)
  next
    assume "file_exists f \<and> readable f \<and>
      (\<exists>c. json_content f = Some c \<and> ensure_keys DEFAULT_CONFIG c = Inr (load_config f))"
    then obtain c where r: "readable f"
      and e: "ensure_keys DEFAULT_CONFIG c = Inr (load_config f)" by blast
    from e have "ensure_keys DEFAULT_CONFIG (load_config f) = Inr (load_config f)"
      by (rule ensure_keys_idem)
    then have "load_config (f\<lparr>file_exists := True, json_content := Some (load_config f)\<rparr>) =
        (if readable f then load_config f else JObject DEFAULT_CONFIG)"
      by (rule load_config_fixed)
    with written r show ?thesis by simp
  qed
qed

theorem save_load_roundtrip_witness:
  "fst (save_config
      \<lparr>file_exists = True, readable = True,
       json_content = Some (JObject [(''overlay_locked'', JBool True)]), on_write = Written\<rparr>
      (load_config
        \<lparr>file_exists = True, readable = True,
         json_content = Some (JObject [(''overlay_locked'', JBool True)]), on_write = Written\<rparr>)) \<and>
   load_config (snd (save_config
      \<lparr>file_exists = True, readable = True,
       json_content = Some (JObject [(''overlay_locked'', JBool True)]), on_write = Written\<rparr>
      (load_config
        \<lparr>file_exists = True, readable = True,
         json_content = Some (JObject [(''overlay_locked'', JBool True)]), on_write = Written\<rparr>))) =
     JObject [(''overlay_locked'', JBool True), (''overlay_color'', JString ''#ffff00''),
              (''overlay_x'', JNull), (''overlay_y'', JNull)]"
  using save_load_roundtrip
    [of "\<lparr>file_exists = True, readable = True,
       json_content = Some (JObject [(''overlay_locked'', JBool True)]), on_write = Written\<rparr>"]
  by (simp add: save_config_def load_config_def load_config_try_def DEFAULT_CONFIG_def
        py_in_def py_setitem_def)

subsection \<open>The overlay's visual mode\<close>

lemma dropWhile_all_iff: "(\<forall>x\<in>set (dropWhile P xs). P x) \<longleftrightarrow> (\<forall>x\<in>set xs. P x)"
  by (induction xs) auto

lemma str_strip_Nil_iff: "str_strip s = [] \<longleftrightarrow> (\<forall>c\<in>set s. py_isspace c)"
  by (simp add: str_strip_def dropWhile_all_iff)

lemma digit_shape:
  assumes "d \<in> ran NUMPAD_MAPPING"
  shows "\<exists>c. d = [c] \<and> \<not> py_isspace c \<and> c \<noteq> CHR ''O''"
proof -
  from assms obtain vk where "NUMPAD_MAPPING vk = Some d" by (auto simp: ran_def)
  then show ?thesis
    by (auto simp: NUMPAD_MAPPING_def py_isspace_def split: if_splits)
qed

lemma split_from_join:
  assumes "set ds \<subseteq> ran NUMPAD_MAPPING"
  shows "split_from [] (str_join '' '' ds) = ds"
  using assms
proof (induction "'' ''" ds rule: str_join.induct)
  case 1
  show ?case by simp
next
  case (2 x)
  then obtain c where "x = [c]" "\<not> py_isspace c" using digit_shape [of x] by auto
  then show ?case by simp
next
  case (3 x y ys)
  then obtain c where c: "x = [c]" "\<not> py_isspace c" using digit_shape [of x] by auto
  have sp: "py_isspace CHR '' ''" by (simp add: py_isspace_def)
  from 3 have "split_from [] (str_join '' '' (y # ys)) = y # ys" by simp
  with c sp show ?case by simp
qed

lemma str_join_head:
  "str_join sep ([c] # xs) = c # (if xs = [] then [] else sep @ str_join sep xs)"
  by (cases xs) simp_all

lemma join_digits_blank_iff:
  assumes "set ds \<subseteq> ran NUMPAD_MAPPING"
  shows "str_strip (str_join '' '' ds) = [] \<longleftrightarrow> ds = []"
proof (cases ds)
  case Nil
  then show ?thesis by (simp add: str_strip_def)
next
  case (Cons x xs)
  with assms obtain c where "x = [c]" "\<not> py_isspace c" using digit_shape [of x] by auto
  with Cons show ?thesis by (auto simp: str_strip_Nil_iff str_join_head)
qed

lemma join_digits_not_Overlay:
  assumes "set ds \<subseteq> ran NUMPAD_MAPPING"
  shows "\<not> startswith (str_join '' '' ds) ''Overlay''"
proof (cases ds)
  case Nil
  then show ?thesis by (simp add: startswith_def)
next
  case (Cons x xs)
  with assms obtain c where "x = [c]" "c \<noteq> CHR ''O''" using digit_shape [of x] by auto
  with Cons show ?thesis by (simp add: startswith_def str_join_head)
qed

lemma hint_is_Overlay: "startswith position_hint ''Overlay''"
  by (simp add: startswith_def position_hint_def)

lemma empty_not_content: "str_strip [] = []"
  by (simp add: str_strip_def)

lemma update_text_digits:
  assumes "set ds \<subseteq> ran NUMPAD_MAPPING"
  shows "update_text cfg (str_join '' '' ds) w =
     w\<lparr>label_text :=
          (if ds \<noteq> [] then str_join '' '' (take 7 ds)
           else if overlay_locked cfg then [] else position_hint),
       label_sheet :=
          (if ds \<noteq> [] then
             (if overlay_locked cfg
              then \<lparr>text_color = overlay_color cfg, font_size = ''36px'',
                    bg_color = ''transparent'', border_style = ''none''\<rparr>
              else \<lparr>text_color = overlay_color cfg, font_size = ''36px'',
                    bg_color = ''rgba(255, 71, 87, 0.15)'',
                    border_style = ''2px dashed #ff4757''\<rparr>)
           else if overlay_locked cfg
           then \<lparr>text_color = ''transparent'', font_size = ''16px'',
                 bg_color = ''transparent'', border_style = ''none''\<rparr>
           else \<lparr>text_color = ''#ff4757'', font_size = ''16px'',
                 bg_color = ''rgba(255, 71, 87, 0.15)'',
                 border_style = ''2px dashed #ff4757''\<rparr>)\<rparr>"
proof -
  have t7: "set (take 7 ds) \<subseteq> ran NUMPAD_MAPPING"
    using assms by (meson set_take_subset subset_trans)
  have sp: "str_split (str_join '' '' ds) = ds"
    by (simp add: str_split_def split_from_join [OF assms])
  have text': "(if length ds > 7 then str_join '' '' (take 7 ds) else str_join '' '' ds) =
      str_join '' '' (take 7 ds)"
    by simp
  have blank: "str_strip (str_join '' '' (take 7 ds)) = [] \<longleftrightarrow> ds = []"
    using join_digits_blank_iff [OF t7] by simp
  have no: "\<not> startswith (str_join '' '' (take 7 ds)) ''Overlay''"
    by (rule join_digits_not_Overlay [OF t7])
  show ?thesis
    unfolding update_text_def Let_def sp text'
    by (simp add: update_overlay_style_def Let_def blank no hint_is_Overlay empty_not_content)
qed

text \<open>
  Claim C7. When the overlay is handed the spaced rendering of a buffer of keypad digits,
  its label and style depend on two things only, whether there are digits and whether
  the overlay is locked, as in the table: digits and locked, the digits with no border
  and a transparent background; digits and unlocked, the digits with the dashed border
  and the tinted background; no digits and locked, an empty label, transparent text, no
  border, transparent background; no digits and unlocked, the positioning hint with the
  dashed border and the tinted background. (More than 7 digits would be cut to the
  first 7; the buffer never holds more.)
\<close>

theorem overlay_mode_table:
  assumes "set ds \<subseteq> ran NUMPAD_MAPPING"
  shows
   "(ds \<noteq> [] \<and> overlay_locked cfg \<longrightarrow>
       label_text (update_text cfg (str_join '' '' ds) w) = str_join '' '' (take 7 ds) \<and>
       text_color (label_sheet (update_text cfg (str_join '' '' ds) w)) = overlay_color cfg \<and>
       border_style (label_sheet (update_text cfg (str_join '' '' ds) w)) = ''none'' \<and>
       bg_color (label_sheet (update_text cfg (str_join '' '' ds) w)) = ''transparent'') \<and>
    (ds \<noteq> [] \<and> \<not> overlay_locked cfg \<longrightarrow>
       label_text (update_text cfg (str_join '' '' ds) w) = str_join '' '' (take 7 ds) \<and>
       text_color (label_sheet (update_text cfg (str_join '' '' ds) w)) = overlay_color cfg \<and>
       border_style (label_sheet (update_text cfg (str_join '' '' ds) w)) = ''2px dashed #ff4757'' \<and>
       bg_color (label_sheet (update_text cfg (str_join '' '' ds) w)) = ''rgba(255, 71, 87, 0.15)'') \<and>
    (ds = [] \<and> overlay_locked cfg \<longrightarrow>
       label_text (update_text cfg (str_join '' '' ds) w) = [] \<and>
       text_color (label_sheet (update_text cfg (str_join '' '' ds) w)) = ''transparent'' \<and>
       border_style (label_sheet (update_text cfg (str_join '' '' ds) w)) = ''none'' \<and>
       bg_color (label_sheet (update_text cfg (str_join '' '' ds) w)) = ''transparent'') \<and>
    (ds = [] \<and> \<not> overlay_locked cfg \<longrightarrow>
       label_text (update_text cfg (str_join '' '' ds) w) = position_hint \<and>
       text_color (label_sheet (update_text cfg (str_join '' '' ds) w)) = ''#ff4757'' \<and>
       border_style (label_sheet (update_text cfg (str_join '' '' ds) w)) = ''2px dashed #ff4757'' \<and>
       bg_color (label_sheet (update_text cfg (str_join '' '' ds) w)) = ''rgba(255, 71, 87, 0.15)'')"
  unfolding update_text_digits [OF assms] by simp

theorem overlay_mode_table_witness:
  "set [''1'', ''9''] \<subseteq> ran NUMPAD_MAPPING \<and>
   overlay_locked (default_preferences\<lparr>overlay_locked := True\<rparr>) \<and>
   \<not> overlay_locked default_preferences \<and>
   label_text (update_text (default_preferences\<lparr>overlay_locked := True\<rparr>)
     (str_join '' '' [''1'', ''9'']) (setup_ui default_preferences)) = ''1 9'' \<and>
   border_style (label_sheet (update_text (default_preferences\<lparr>overlay_locked := True\<rparr>)
     (str_join '' '' [''1'', ''9'']) (setup_ui default_preferences))) = ''none'' \<and>
   label_text (update_text default_preferences
     (str_join '' '' [''1'', ''9'']) (setup_ui default_preferences)) = ''1 9'' \<and>
   border_style (label_sheet (update_text default_preferences
     (str_join '' '' [''1'', ''9'']) (setup_ui default_preferences))) = ''2px dashed #ff4757'' \<and>
   label_text (update_text (default_preferences\<lparr>overlay_locked := True\<rparr>)
     (str_join '' '' []) (setup_ui default_preferences)) = [] \<and>
   text_color (label_sheet (update_text (default_preferences\<lparr>overlay_locked := True\<rparr>)
     (str_join '' '' []) (setup_ui default_preferences))) = ''transparent'' \<and>
   label_text (update_text default_preferences
     (str_join '' '' []) (setup_ui default_preferences)) = position_hint \<and>
   border_style (label_sheet (update_text default_preferences
     (str_join '' '' []) (setup_ui default_preferences))) = ''2px dashed #ff4757''"
proof -
  have "NUMPAD_MAPPING 97 = Some ''1''" and "NUMPAD_MAPPING 105 = Some ''9''"
    by (simp_all add: NUMPAD_MAPPING_def)
  then have h: "set [''1'', ''9''] \<subseteq> ran NUMPAD_MAPPING"
    by (auto intro: ranI)
  have e: "set ([]::string list) \<subseteq> ran NUMPAD_MAPPING" by simp
  show ?thesis
    using h
      overlay_mode_table [OF h, of "default_preferences\<lparr>overlay_locked := True\<rparr>"
        "setup_ui default_preferences"]
      overlay_mode_table [OF h, of default_preferences "setup_ui default_preferences"]
      overlay_mode_table [OF e, of "default_preferences\<lparr>overlay_locked := True\<rparr>"
        "setup_ui default_preferences"]
      overlay_mode_table [OF e, of default_preferences "setup_ui default_preferences"]
    by (simp add: default_preferences_def)
qed

subsection \<open>The windows in every reachable state\<close>

lemma update_display_synced:
  "overlay (update_display s) = Some w \<Longrightarrow>
   update_text (config (update_display s))
     (str_join '' '' (logged_numbers (update_display s))) w = w"
  by (auto simp: update_display_def Let_def)

lemma clear_numbers_config [simp]: "config (clear_numbers s) = config s"
  by (simp add: clear_numbers_def)

lemma send_numbers_config [simp]: "config (send_numbers s) = config s"
  by (simp add: send_numbers_def Let_def)

lemma append_digit_config [simp]: "config (append_digit s k) = config s"
  by (simp add: append_digit_def split: key.splits option.splits)

lemma handle_overlay_config [simp]: "config (handle s (OverlayClicked sw)) = config s"
  by (cases "toggle_overlay s sw") (auto dest: toggle_overlay_Inr)

lemma handle_overlay_label [simp]:
  "display_label (handle s (OverlayClicked sw)) = display_label s"
  by (cases "toggle_overlay s sw") (auto dest: toggle_overlay_Inr)

lemma style_after_text:
  "overlay_locked cfg' = overlay_locked cfg \<Longrightarrow>
   update_overlay_style cfg' (update_text cfg t w) = update_text cfg' t w"
  by (simp add: update_text_def update_overlay_style_def Let_def)

lemma append_digit_digits:
  "set (logged_numbers s) \<subseteq> ran NUMPAD_MAPPING \<Longrightarrow>
   set (logged_numbers (append_digit s k)) \<subseteq> ran NUMPAD_MAPPING"
  by (auto simp: append_digit_def intro: ranI split: key.splits option.splits)

lemma handle_digits:
  "set (logged_numbers s) \<subseteq> ran NUMPAD_MAPPING \<Longrightarrow>
   set (logged_numbers (handle s e)) \<subseteq> ran NUMPAD_MAPPING"
  by (cases e)
     (simp_all add: on_key_press_def Let_def append_digit_digits del: handle.simps(3))

lemma run_digits:
  "set (logged_numbers s) \<subseteq> ran NUMPAD_MAPPING \<Longrightarrow>
   set (logged_numbers (run s es)) \<subseteq> ran NUMPAD_MAPPING"
  unfolding run_def by (induction es arbitrary: s) (simp_all add: handle_digits)

lemma handle_synced:
  assumes "\<And>w. overlay s = Some w \<Longrightarrow>
             update_text (config s) (str_join '' '' (logged_numbers s)) w = w"
    and "overlay (handle s e) = Some w"
  shows "update_text (config (handle s e)) (str_join '' '' (logged_numbers (handle s e))) w = w"
proof (cases e)
  case (KeyPress k)
  have a: "update_text (config (append_digit s k))
      (str_join '' '' (logged_numbers (append_digit s k))) w' = w'"
    if "overlay (append_digit s k) = Some w'" for w'
    using that assms(1) [of w']
    by (auto simp: append_digit_def split: key.splits option.splits if_splits)
  show ?thesis
  proof (cases "k = Key ''enter''")
    case True
    with assms KeyPress show ?thesis
      by (auto simp: send_numbers_def clear_numbers_def Let_def split: if_splits)
  next
    case False
    show ?thesis
    proof (cases "k = Key ''backspace''")
      case True
      with assms KeyPress show ?thesis by (auto simp: clear_numbers_def)
    next
      case nb: False
      with False KeyPress have "handle s e = append_digit s k" by (simp add: on_key_press_def)
      with a assms(2) show ?thesis by simp
    qed
  qed
next
  case ClearClicked
  with assms show ?thesis by (auto simp: clear_numbers_def)
next
  case (OverlayClicked sw)
  from handle_overlay_cases [of s sw] show ?thesis
  proof
    assume "handle s (OverlayClicked sw) = s"
    with assms OverlayClicked show ?thesis by simp
  next
    assume "\<exists>ov. handle s (OverlayClicked sw) = s\<lparr>overlay := ov\<rparr> \<and>
      (\<forall>w. ov = Some w \<longrightarrow>
         update_text (config s) (str_join '' '' (logged_numbers s)) w = w)"
    then obtain ov where h: "handle s (OverlayClicked sw) = s\<lparr>overlay := ov\<rparr>"
      and f: "\<forall>w. ov = Some w \<longrightarrow>
         update_text (config s) (str_join '' '' (logged_numbers s)) w = w" by blast
    from assms(2) OverlayClicked h have "ov = Some w" by simp
    with f h OverlayClicked show ?thesis by simp
  qed
next
  case SaveClicked
  with assms show ?thesis by (simp add: save_settings_def)
next
  case LockClicked
  with assms show ?thesis by (auto simp: toggle_lock_def Let_def)
next
  case (ColorPicked choice)
  show ?thesis
  proof (cases choice)
    case None
    with assms ColorPicked show ?thesis by (simp add: pick_color_def)
  next
    case (Some hex_color)
    let ?cfg = "(config s)\<lparr>overlay_color := hex_color\<rparr>"
    from assms(2) ColorPicked Some obtain w0 where w0: "overlay s = Some w0"
      and w: "w = update_overlay_style ?cfg w0"
      by (auto simp: pick_color_def Let_def)
    from assms(1) [OF w0] have "w0 = update_text (config s) (str_join '' '' (logged_numbers s)) w0"
      by simp
    then have "w = update_overlay_style ?cfg
        (update_text (config s) (str_join '' '' (logged_numbers s)) w0)"
      using w by simp
    then have "w = update_text ?cfg (str_join '' '' (logged_numbers s)) w0"
      by (simp add: style_after_text)
    then have "update_text ?cfg (str_join '' '' (logged_numbers s)) w = w"
      by (metis update_text_twice)
    with ColorPicked Some show ?thesis by (simp add: pick_color_def Let_def)
  qed
next
  case ResetClicked
  let ?cfg = "(config s)\<lparr>overlay_color := ''#ffff00''\<rparr>"
  from assms(2) ResetClicked obtain w0 where w0: "overlay s = Some w0"
    and w: "w = update_overlay_style ?cfg w0"
    by (auto simp: reset_default_def Let_def)
  from assms(1) [OF w0] have "w0 = update_text (config s) (str_join '' '' (logged_numbers s)) w0"
    by simp
  then have "w = update_overlay_style ?cfg
      (update_text (config s) (str_join '' '' (logged_numbers s)) w0)"
    using w by simp
  then have "w = update_text ?cfg (str_join '' '' (logged_numbers s)) w0"
    by (simp add: style_after_text)
  then have "update_text ?cfg (str_join '' '' (logged_numbers s)) w = w"
    by (metis update_text_twice)
  with ResetClicked show ?thesis by (simp add: reset_default_def Let_def)
qed

lemma run_synced:
  assumes "\<And>w. overlay s = Some w \<Longrightarrow>
             update_text (config s) (str_join '' '' (logged_numbers s)) w = w"
    and "overlay (run s es) = Some w"
  shows "update_text (config (run s es)) (str_join '' '' (logged_numbers (run s es))) w = w"
  using assms(2)
proof (induction es arbitrary: w rule: rev_induct)
  case Nil
  then show ?case using assms(1) by (simp add: run_def)
next
  case (snoc e es)
  have r: "run s (es @ [e]) = handle (run s es) e" by (simp add: run_def)
  show ?case unfolding r
  proof (rule handle_synced)
    fix w' assume "overlay (run s es) = Some w'"
    then show "update_text (config (run s es)) (str_join '' '' (logged_numbers (run s es))) w' = w'"
      by (rule snoc.IH)
  next
    show "overlay (handle (run s es) e) = Some w" using snoc.prems by (simp add: r)
  qed
qed


lemma handle_display_sync:
  "display_label s = str_join '' '' (logged_numbers s) \<Longrightarrow>
   display_label (handle s e) = str_join '' '' (logged_numbers (handle s e))"
proof (cases e)
  case (KeyPress k)
  assume a: "display_label s = str_join '' '' (logged_numbers s)"
  then have "display_label (append_digit s k) = str_join '' '' (logged_numbers (append_digit s k))"
    by (rule append_digit_sync)
  with KeyPress a show ?thesis
    by (simp add: on_key_press_def Let_def send_numbers_def clear_numbers_def)
next
  case ClearClicked
  then show ?thesis by simp
next
  case (OverlayClicked sw)
  assume "display_label s = str_join '' '' (logged_numbers s)"
  with OverlayClicked show ?thesis by (simp del: handle.simps(3))
next
  case SaveClicked
  assume "display_label s = str_join '' '' (logged_numbers s)"
  with SaveClicked show ?thesis by (simp add: save_settings_def)
next
  case LockClicked
  assume "display_label s = str_join '' '' (logged_numbers s)"
  with LockClicked show ?thesis by (simp add: toggle_lock_def Let_def)
next
  case (ColorPicked choice)
  assume "display_label s = str_join '' '' (logged_numbers s)"
  with ColorPicked show ?thesis by (simp add: pick_color_def Let_def split: option.splits)
next
  case ResetClicked
  assume "display_label s = str_join '' '' (logged_numbers s)"
  with ResetClicked show ?thesis by (simp add: reset_default_def Let_def)
qed

text \<open>
  In every state the main window reaches, the display label is the spaced rendering of
  the buffer.
\<close>

theorem display_label_follows_buffer:
  "display_label (run (MainWindow cfg) es) =
     str_join '' '' (logged_numbers (run (MainWindow cfg) es))"
proof (induction es rule: rev_induct)
  case Nil
  show ?case by (simp add: run_def MainWindow_def)
next
  case (snoc e es)
  have "run (MainWindow cfg) (es @ [e]) = handle (run (MainWindow cfg) es) e"
    by (simp add: run_def)
  with handle_display_sync [OF snoc.IH, of e] show ?case by simp
qed

text \<open>
  In every state the main window reaches with the overlay open, the overlay shows the
  row of the table for the buffer and the lock: the buffer's digits or, without digits,
  the hint when unlocked and nothing when locked; the border and the tinted background
  exactly when unlocked.
\<close>

theorem reachable_overlay_mode:
  assumes "overlay (run (MainWindow cfg) es) = Some w"
  shows "label_text w =
           (if logged_numbers (run (MainWindow cfg) es) \<noteq> []
            then str_join '' '' (logged_numbers (run (MainWindow cfg) es))
            else if overlay_locked (config (run (MainWindow cfg) es)) then []
            else position_hint) \<and>
         text_color (label_sheet w) =
           (if logged_numbers (run (MainWindow cfg) es) \<noteq> []
            then overlay_color (config (run (MainWindow cfg) es))
            else if overlay_locked (config (run (MainWindow cfg) es)) then ''transparent''
            else ''#ff4757'') \<and>
         border_style (label_sheet w) =
           (if overlay_locked (config (run (MainWindow cfg) es)) then ''none''
            else ''2px dashed #ff4757'') \<and>
         bg_color (label_sheet w) =
           (if overlay_locked (config (run (MainWindow cfg) es)) then ''transparent''
            else ''rgba(255, 71, 87, 0.15)'')"
proof -
  let ?s = "run (MainWindow cfg) es"
  have d: "set (logged_numbers ?s) \<subseteq> ran NUMPAD_MAPPING"
    by (rule run_digits) (simp add: MainWindow_def)
  have "length (logged_numbers ?s) \<le> 7"
    by (rule run_length) (simp add: MainWindow_def)
  then have t: "take 7 (logged_numbers ?s) = logged_numbers ?s" by simp
  have "update_text (config ?s) (str_join '' '' (logged_numbers ?s)) w = w"
  proof (rule run_synced [OF _ assms])
    fix w' assume "overlay (MainWindow cfg) = Some w'"
    then show "update_text (config (MainWindow cfg))
        (str_join '' '' (logged_numbers (MainWindow cfg))) w' = w'"
      by (simp add: MainWindow_def)
  qed
  then have w: "w = update_text (config ?s) (str_join '' '' (logged_numbers ?s)) w"
    by simp
  show ?thesis
    by (subst w, subst (2) w, subst (3) w, subst (4) w)
       (simp add: update_text_digits [OF d] t)
qed

theorem reachable_overlay_mode_witness:
  "overlay (run (MainWindow default_preferences)
      [OverlayClicked 1920, KeyPress (KeyCode (Some 99)), LockClicked]) =
     Some \<lparr>label_text = ''3'',
           label_sheet = \<lparr>text_color = ''#ffff00'', font_size = ''36px'',
                          bg_color = ''transparent'', border_style = ''none''\<rparr>,
           click_through = True, window_pos = (720, 30)\<rparr>"
proof -
  have o: "overlay (run (MainWindow default_preferences)
      [OverlayClicked 1920, KeyPress (KeyCode (Some 99)), LockClicked]) =
     Some \<lparr>label_text = ''3'',
           label_sheet = \<lparr>text_color = ''#ffff00'', font_size = ''36px'',
                          bg_color = ''transparent'', border_style = ''none''\<rparr>,
           click_through = True, window_pos = (720, 30)\<rparr>"
    by code_simp
  from reachable_overlay_mode [OF o] o show ?thesis by simp
qed

subsection \<open>Where the work of a key event is done\<close>

text \<open>
  Claim C10 says that the listener's callback only hands the event over and that the
  buffer is changed and the windows are redrawn later, by the GUI thread. The source has
  no queue, signal or timer between the two: \<^verbatim>\<open>on_key_press\<close> is the function given to
  \<^verbatim>\<open>keyboard.Listener\<close>, a function body runs on the thread that calls it, and the body
  itself appends to \<^verbatim>\<open>logged_numbers\<close> and calls \<^verbatim>\<open>update_display\<close>. So when the callback
  returns for the keypad key 1, the buffer and the display label have already changed.
\<close>

theorem on_key_press_defers_nothing:
  "logged_numbers (MainWindow default_preferences) = [] \<and>
   display_label (MainWindow default_preferences) = [] \<and>
   logged_numbers (on_key_press (MainWindow default_preferences) (KeyCode (Some 97))) = [''1''] \<and>
   display_label (on_key_press (MainWindow default_preferences) (KeyCode (Some 97))) = ''1''"
  by (simp add: MainWindow_def append_digit_def NUMPAD_MAPPING_def)

lemma append_digit_saves [simp]: "save_calls (append_digit s k) = save_calls s"
  by (simp add: append_digit_def update_display_def Let_def split: key.splits option.splits)

lemma clear_numbers_saves [simp]: "save_calls (clear_numbers s) = save_calls s"
  by (simp add: clear_numbers_def update_display_def Let_def)

lemma send_numbers_saves [simp]: "save_calls (send_numbers s) = save_calls s"
  by (simp add: send_numbers_def Let_def)

text \<open>The buttons that change a preference do write the file, once each.\<close>

lemma buttons_save:
  "save_calls (toggle_lock s) = save_calls s @ [config (toggle_lock s)] \<and>
   save_calls (pick_color s (Some c)) = save_calls s @ [config (pick_color s (Some c))] \<and>
   save_calls (reset_default s) = save_calls s @ [config (reset_default s)] \<and>
   save_calls (save_settings s) = save_calls s @ [config s]"
  by (simp add: toggle_lock_def pick_color_def reset_default_def save_settings_def Let_def)

text \<open>
  Claim C10 as amended: a digit, Enter or Backspace event is not handed over. The
  callback applies it itself, before it returns. For a keypad digit with room in the
  buffer the digit is in the buffer and the display label and the overlay show the new
  rendering (with a full buffer nothing changes); for Enter on a non-empty buffer the
  concatenated digits have been handed to the emitter once, the buffer is empty, and
  label and overlay show the empty rendering (on an empty buffer nothing changes); for
  Backspace the buffer is empty and label and overlay show the empty rendering. What the
  claim says of file I/O stands: no key, of any kind, makes the callback write the
  preferences file.
\<close>

theorem on_key_press_acts_inline:
  "(NUMPAD_MAPPING vk = Some d \<and> length (logged_numbers s) < 7 \<longrightarrow>
      logged_numbers (on_key_press s (KeyCode (Some vk))) = logged_numbers s @ [d] \<and>
      display_label (on_key_press s (KeyCode (Some vk))) =
        str_join '' '' (logged_numbers s @ [d]) \<and>
      overlay (on_key_press s (KeyCode (Some vk))) =
        map_option (update_text (config s) (str_join '' '' (logged_numbers s @ [d])))
          (overlay s)) \<and>
   (\<not> length (logged_numbers s) < 7 \<longrightarrow> on_key_press s (KeyCode (Some vk)) = s) \<and>
   (logged_numbers s \<noteq> [] \<longrightarrow>
      typed (on_key_press s (Key ''enter'')) = typed s @ [concat (logged_numbers s)] \<and>
      logged_numbers (on_key_press s (Key ''enter'')) = [] \<and>
      display_label (on_key_press s (Key ''enter'')) = [] \<and>
      overlay (on_key_press s (Key ''enter'')) =
        map_option (update_text (config s) []) (overlay s)) \<and>
   (logged_numbers s = [] \<longrightarrow> on_key_press s (Key ''enter'') = s) \<and>
   logged_numbers (on_key_press s (Key ''backspace'')) = [] \<and>
   display_label (on_key_press s (Key ''backspace'')) = [] \<and>
   overlay (on_key_press s (Key ''backspace'')) =
     map_option (update_text (config s) []) (overlay s) \<and>
   typed (on_key_press s (Key ''backspace'')) = typed s \<and>
   save_calls (on_key_press s k) = save_calls s"
proof -
  have full: "\<not> length (logged_numbers s) < 7 \<Longrightarrow> append_digit s (KeyCode (Some vk)) = s"
    by (simp add: append_digit_def split: option.splits)
  have saves: "save_calls (on_key_press s k) = save_calls s"
    by (simp add: on_key_press_def Let_def)
  show ?thesis
    by (simp add: append_digit_Some full saves send_numbers_def clear_numbers_def Let_def
          str_join_empty_sep)
qed

theorem on_key_press_acts_inline_witness:
  "NUMPAD_MAPPING 103 = Some ''7'' \<and>
   length (logged_numbers (handle (MainWindow default_preferences) (OverlayClicked 1920))) < 7 \<and>
   logged_numbers (on_key_press (handle (MainWindow default_preferences) (OverlayClicked 1920))
     (KeyCode (Some 103))) = [''7''] \<and>
   display_label (on_key_press (handle (MainWindow default_preferences) (OverlayClicked 1920))
     (KeyCode (Some 103))) = ''7'' \<and>
   \<not> length (logged_numbers ((MainWindow default_preferences)
       \<lparr>logged_numbers := [''1'', ''2'', ''3'', ''4'', ''5'', ''6'', ''7'']\<rparr>)) < 7 \<and>
   on_key_press ((MainWindow default_preferences)
       \<lparr>logged_numbers := [''1'', ''2'', ''3'', ''4'', ''5'', ''6'', ''7'']\<rparr>) (KeyCode (Some 103)) =
     (MainWindow default_preferences)
       \<lparr>logged_numbers := [''1'', ''2'', ''3'', ''4'', ''5'', ''6'', ''7'']\<rparr> \<and>
   logged_numbers ((MainWindow default_preferences)\<lparr>logged_numbers := [''7'', ''3'']\<rparr>) \<noteq> [] \<and>
   typed (on_key_press ((MainWindow default_preferences)\<lparr>logged_numbers := [''7'', ''3'']\<rparr>)
     (Key ''enter'')) = [''73''] \<and>
   logged_numbers (on_key_press
     ((MainWindow default_preferences)\<lparr>logged_numbers := [''7'', ''3'']\<rparr>) (Key ''enter'')) = [] \<and>
   logged_numbers (MainWindow default_preferences) = [] \<and>
   on_key_press (MainWindow default_preferences) (Key ''enter'') = MainWindow default_preferences"
proof -
  have m: "NUMPAD_MAPPING 103 = Some ''7''" by (simp add: NUMPAD_MAPPING_def)
  show ?thesis
    using m
      on_key_press_acts_inline
        [of 103 "''7''" "handle (MainWindow default_preferences) (OverlayClicked 1920)" NoKey]
      on_key_press_acts_inline
        [of 103 "''7''" "(MainWindow default_preferences)
           \<lparr>logged_numbers := [''1'', ''2'', ''3'', ''4'', ''5'', ''6'', ''7'']\<rparr>" NoKey]
      on_key_press_acts_inline
        [of 103 "''7''" "(MainWindow default_preferences)\<lparr>logged_numbers := [''7'', ''3'']\<rparr>" NoKey]
      on_key_press_acts_inline [of 103 "''7''" "MainWindow default_preferences" NoKey]
    by (simp add: MainWindow_def del: handle.simps(3))
qed

end
